theory Spec2Isabelle
  imports Complex_Main "HOL-Library.AList" "HOL-Library.Sublist"
begin

section \<open>HydraAI coordinator: database, parameter blending, request handlers\<close>

text \<open>
  A shallow embedding of \<^verbatim>\<open>database.py\<close> (class HydraDatabase), of the parameter
  functions of \<^verbatim>\<open>model.py\<close> and of the request handlers of \<^verbatim>\<open>coordinator.py\<close>.

  Conventions of the embedding:
  \<^item> SQLite tables are lists of rows in insertion (rowid) order;
  \<^item> token amounts (SQLite REAL, Python float) and tensor elements (float32) are
    real numbers: rounding is not modelled;
  \<^item> every reading of \<^verbatim>\<open>datetime.now()\<close> is an argument of the operation that makes it,
    so are the identifiers drawn by \<^verbatim>\<open>uuid.uuid4()\<close> and the positions drawn by
    \<^verbatim>\<open>random.sample\<close>;
  \<^item> a request field read with \<^verbatim>\<open>data.get(...)\<close> is an option (None: absent or null);
  \<^item> an exception that leaves a handler is a value, returned with the state reached
    when it was raised.
\<close>

subsection \<open>Tensors as nested lists\<close>

text \<open>The JSON form of a tensor (\<^verbatim>\<open>tolist()\<close>): a number or a list of such values.\<close>

datatype nd = Num real | Arr "nd list"

text \<open>The shape \<^verbatim>\<open>torch.tensor\<close> infers; None when the nesting is ragged.\<close>

fun shape_of :: "nd \<Rightarrow> nat list option" where
  "shape_of (Num x) = Some []"
| "shape_of (Arr []) = Some [0]"
| "shape_of (Arr (v # vs)) =
     (case shape_of v of
        None \<Rightarrow> None
      | Some s \<Rightarrow> if list_all (\<lambda>u. shape_of u = Some s) vs
                  then Some (Suc (length vs) # s) else None)"

fun rank :: "nd \<Rightarrow> nat" where
  "rank (Num x) = 0"
| "rank (Arr []) = 1"
| "rank (Arr (v # vs)) = Suc (rank v)"

datatype exn = ValueError | RuntimeError | IntegrityError | TypeError

text \<open>\<^verbatim>\<open>torch.tensor(v)\<close>: raises on a ragged nested list.\<close>

definition torch_tensor :: "nd \<Rightarrow> exn + nd" where
  "torch_tensor v = (case shape_of v of None \<Rightarrow> Inl ValueError | Some s \<Rightarrow> Inr v)"

text \<open>\<^verbatim>\<open>c * tensor\<close> for a Python scalar c.\<close>

fun scalar_mul :: "real \<Rightarrow> nd \<Rightarrow> nd" where
  "scalar_mul c (Num x) = Num (c * x)"
| "scalar_mul c (Arr vs) = Arr (map (scalar_mul c) vs)"

text \<open>
  Broadcasting of two shapes, as torch does it: aligned at the last dimension, a
  missing dimension or a dimension of size 1 stretches to the other size.
\<close>

fun broadcast_rev :: "nat list \<Rightarrow> nat list \<Rightarrow> nat list option" where
  "broadcast_rev [] ys = Some ys"
| "broadcast_rev xs [] = Some xs"
| "broadcast_rev (x # xs) (y # ys) =
     (if x = y \<or> y = 1 then map_option ((#) x) (broadcast_rev xs ys)
      else if x = 1 then map_option ((#) y) (broadcast_rev xs ys)
      else None)"

definition broadcast_shapes :: "nat list \<Rightarrow> nat list \<Rightarrow> nat list option" where
  "broadcast_shapes a b = map_option rev (broadcast_rev (rev a) (rev b))"

text \<open>A tensor stretched to a shape it broadcasts to.\<close>

fun expand :: "nat list \<Rightarrow> nd \<Rightarrow> nd" where
  "expand [] t = t"
| "expand (n # ns) t =
     (if rank t \<le> length ns then Arr (replicate n (expand ns t))
      else (case t of
              Num x \<Rightarrow> Num x
            | Arr vs \<Rightarrow> (if length vs = n then Arr (map (expand ns) vs)
                        else Arr (replicate n (expand ns (hd vs))))))"

text \<open>Element-wise sum of two tensors of one shape.\<close>

function (sequential) add_same :: "nd \<Rightarrow> nd \<Rightarrow> nd" where
  "add_same (Num x) (Num y) = Num (x + y)"
| "add_same (Arr xs) (Arr ys) = Arr (map (\<lambda>(x, y). add_same x y) (zip xs ys))"
| "add_same (Num x) (Arr ys) = Num x"
| "add_same (Arr xs) (Num y) = Arr xs"
  by pat_completeness auto
termination
proof (relation "measure (\<lambda>(a, b). size a)")
  fix xs ys :: "nd list" and z x y
  assume "z \<in> set (zip xs ys)" and "(x, y) = z"
  then have "x \<in> set xs" by (auto dest: set_zip_leftD)
  then have "size x \<le> size_list size xs" by (rule size_list_estimation') simp
  then show "((x, y), (Arr xs, Arr ys)) \<in> measure (\<lambda>(a, b). size a)" by simp
qed simp

text \<open>\<^verbatim>\<open>a + b\<close> on tensors: torch raises RuntimeError when the shapes do not broadcast.\<close>

definition tensor_add :: "nd \<Rightarrow> nd \<Rightarrow> exn + nd" where
  "tensor_add a b =
     (case (shape_of a, shape_of b) of
        (Some sa, Some sb) \<Rightarrow>
          (case broadcast_shapes sa sb of
             None \<Rightarrow> Inl RuntimeError
           | Some s \<Rightarrow> Inr (add_same (expand s a) (expand s b)))
      | _ \<Rightarrow> Inl ValueError)"

subsection \<open>model.py: the parameters of the global model\<close>

text \<open>
  The model's named parameters, in the order of \<^verbatim>\<open>named_parameters()\<close>; the dict that
  \<^verbatim>\<open>get_trainable_parameters\<close> builds from them has the same items.
\<close>

type_synonym params = "(string \<times> nd) list"

definition get_trainable_parameters :: "params \<Rightarrow> params" where
  "get_trainable_parameters m = m"

text \<open>
  \<^verbatim>\<open>load_state_dict(state_dict, strict=False)\<close>: a parameter whose entry has its shape is
  overwritten, one whose entry has another shape is kept and reported, one with no
  entry is kept; the RuntimeError that lists the reported names is raised after every
  parameter has been visited.
\<close>

definition load_param :: "params \<Rightarrow> string \<times> nd \<Rightarrow> string \<times> nd" where
  "load_param sd p =
     (case map_of sd (fst p) of
        None \<Rightarrow> p
      | Some v \<Rightarrow> if shape_of v = shape_of (snd p) then (fst p, v) else p)"

definition size_mismatch :: "params \<Rightarrow> string \<times> nd \<Rightarrow> bool" where
  "size_mismatch sd p =
     (case map_of sd (fst p) of
        None \<Rightarrow> False
      | Some v \<Rightarrow> shape_of v \<noteq> shape_of (snd p))"

definition load_state_dict :: "params \<Rightarrow> params \<Rightarrow> exn option \<times> params" where
  "load_state_dict sd m =
     (if list_ex (size_mismatch sd) m then Some RuntimeError else None,
      map (load_param sd) m)"

text \<open>\<^verbatim>\<open>set_parameters\<close>: every value goes through \<^verbatim>\<open>torch.tensor\<close> first.\<close>

fun to_state_dict :: "params \<Rightarrow> exn + params" where
  "to_state_dict [] = Inr []"
| "to_state_dict ((name, param_data) # rest) =
     (case torch_tensor param_data of
        Inl e \<Rightarrow> Inl e
      | Inr t \<Rightarrow> (case to_state_dict rest of
                    Inl e \<Rightarrow> Inl e
                  | Inr sd \<Rightarrow> Inr ((name, t) # sd)))"

definition set_parameters :: "params \<Rightarrow> params \<Rightarrow> exn option \<times> params" where
  "set_parameters parameters m =
     (case to_state_dict parameters of
        Inl e \<Rightarrow> (Some e, m)
      | Inr sd \<Rightarrow> load_state_dict sd m)"

subsection \<open>coordinator.py: aggregate_parameters\<close>

text \<open>\<^verbatim>\<open>(1 - learning_rate) * global_values + learning_rate * worker_tensor\<close>.\<close>

definition weighted_average :: "real \<Rightarrow> nd \<Rightarrow> nd \<Rightarrow> exn + nd" where
  "weighted_average learning_rate global_values worker_values =
     (case torch_tensor global_values of
        Inl e \<Rightarrow> Inl e
      | Inr g \<Rightarrow>
          (case torch_tensor worker_values of
             Inl e \<Rightarrow> Inl e
           | Inr w \<Rightarrow> tensor_add (scalar_mul (1 - learning_rate) g)
                                 (scalar_mul learning_rate w)))"

text \<open>The loop over \<^verbatim>\<open>worker_parameters.items()\<close>, on the local dict current_params.\<close>

fun blend_loop :: "real \<Rightarrow> params \<Rightarrow> params \<Rightarrow> exn + params" where
  "blend_loop learning_rate [] current_params = Inr current_params"
| "blend_loop learning_rate ((param_name, worker_values) # rest) current_params =
     (case map_of current_params param_name of
        None \<Rightarrow> blend_loop learning_rate rest current_params
      | Some global_values \<Rightarrow>
          (case weighted_average learning_rate global_values worker_values of
             Inl e \<Rightarrow> Inl e
           | Inr new_values \<Rightarrow>
               blend_loop learning_rate rest
                 (AList.update param_name new_values current_params)))"

text \<open>The model after the call, with the exception that left it, if any.\<close>

definition aggregate_parameters :: "params \<Rightarrow> real \<Rightarrow> params \<Rightarrow> exn option \<times> params" where
  "aggregate_parameters worker_parameters learning_rate m =
     (case blend_loop learning_rate worker_parameters (get_trainable_parameters m) of
        Inl e \<Rightarrow> (Some e, m)
      | Inr current_params \<Rightarrow> set_parameters current_params m)"



text \<open>Whether torch can add two values: both are proper tensors and their shapes broadcast.\<close>

definition broadcastable :: "nd \<Rightarrow> nd \<Rightarrow> bool" where
  "broadcastable a b =
     (case (shape_of a, shape_of b) of
        (Some sa, Some sb) \<Rightarrow> broadcast_shapes sa sb \<noteq> None
      | _ \<Rightarrow> False)"


subsection \<open>database.py: the three tables\<close>

record user_row =
  user_id :: string
  created_at :: nat
  total_tokens :: real
  total_work_done :: int

datatype task_status = Pending | Assigned | Completed | Failed

record task_row =
  task_id :: string
  task_created_at :: nat
  assigned_to :: "string option"
  status :: task_status
  data_batch :: "string list"
  result :: "params option"
  tokens_reward :: real
  completed_at :: "nat option"

record transaction_row =
  transaction_id :: nat
  txn_user_id :: string
  amount :: real
  txn_type :: string
  description :: string
  timestamp :: nat

record database =
  users :: "user_row list"
  tasks :: "task_row list"
  transactions :: "transaction_row list"

text \<open>The tables right after \<^verbatim>\<open>create_tables\<close> on a new file.\<close>

definition empty_database :: database where
  "empty_database = \<lparr>users = [], tasks = [], transactions = []\<rparr>"

text \<open>
  \<^verbatim>\<open>create_user\<close>: the INSERT fails with IntegrityError on a user_id that is already a
  primary key, and the function returns False.
\<close>

definition create_user :: "nat \<Rightarrow> string \<Rightarrow> database \<Rightarrow> bool \<times> database" where
  "create_user now uid d =
     (if uid \<in> set (map user_id (users d)) then (False, d)
      else (True, d\<lparr>users := users d @
              [\<lparr>user_id = uid, created_at = now, total_tokens = 0, total_work_done = 0\<rparr>]\<rparr>))"

definition get_user :: "string \<Rightarrow> database \<Rightarrow> user_row option" where
  "get_user uid d = find (\<lambda>u. user_id u = uid) (users d)"

text \<open>\<^verbatim>\<open>add_tokens\<close>: the UPDATE of the matching rows, then the INSERT into the log.\<close>

definition add_tokens :: "nat \<Rightarrow> string \<Rightarrow> real \<Rightarrow> string \<Rightarrow> string \<Rightarrow> database \<Rightarrow> database" where
  "add_tokens now uid amt transaction_type descr d =
     d\<lparr>users := map (\<lambda>u. if user_id u = uid
                          then u\<lparr>total_tokens := total_tokens u + amt\<rparr> else u) (users d),
       transactions := transactions d @
         [\<lparr>transaction_id = Suc (length (transactions d)), txn_user_id = uid, amount = amt,
           txn_type = transaction_type, description = descr, timestamp = now\<rparr>]\<rparr>"

text \<open>\<^verbatim>\<open>create_task\<close>: task_id is the primary key, so a second use of one raises.\<close>

definition create_task :: "nat \<Rightarrow> string \<Rightarrow> string list \<Rightarrow> real \<Rightarrow> database \<Rightarrow> exn + database" where
  "create_task now tid batch reward d =
     (if tid \<in> set (map task_id (tasks d)) then Inl IntegrityError
      else Inr (d\<lparr>tasks := tasks d @
              [\<lparr>task_id = tid, task_created_at = now, assigned_to = None, status = Pending,
                data_batch = batch, result = None, tokens_reward = reward,
                completed_at = None\<rparr>]\<rparr>))"

definition get_pending_task :: "database \<Rightarrow> task_row option" where
  "get_pending_task d = find (\<lambda>t. status t = Pending) (tasks d)"

definition assign_task :: "string \<Rightarrow> string \<Rightarrow> database \<Rightarrow> database" where
  "assign_task tid uid d =
     d\<lparr>tasks := map (\<lambda>t. if task_id t = tid
                          then t\<lparr>status := Assigned, assigned_to := Some uid\<rparr> else t) (tasks d)\<rparr>"

definition complete_task :: "nat \<Rightarrow> string \<Rightarrow> params \<Rightarrow> database \<Rightarrow> database" where
  "complete_task now tid res d =
     d\<lparr>tasks := map (\<lambda>t. if task_id t = tid
                          then t\<lparr>status := Completed, result := Some res,
                                 completed_at := Some now\<rparr> else t) (tasks d)\<rparr>"

record user_stats =
  stats_user_id :: string
  stats_total_tokens :: real
  tasks_completed :: nat
  member_since :: nat

definition get_user_stats :: "string \<Rightarrow> database \<Rightarrow> user_stats option" where
  "get_user_stats uid d =
     (case get_user uid d of
        None \<Rightarrow> None
      | Some user \<Rightarrow>
          Some \<lparr>stats_user_id = uid, stats_total_tokens = total_tokens user,
                tasks_completed =
                  length (filter (\<lambda>t. assigned_to t = Some uid \<and> status t = Completed) (tasks d)),
                member_since = created_at user\<rparr>)"

subsection \<open>coordinator.py: the server and its request handlers\<close>

record coordinator =
  db :: database
  model :: params
  training_data :: "string list"
  tokens_per_task :: real

datatype failure =
    MissingFields
  | UserNotRegistered
  | NoTasksAvailable
  | UserNotFound
  | InsufficientTokens real real
  | Uncaught exn

datatype reply =
    Registered string real
  | AlreadyRegistered string real
  | TaskIssued string "string list" params real
  | TaskCompleted real real
  | BalanceReport user_stats
  | QueryAnswered string real real

text \<open>Python truth of a request field: absent, null, the empty string and the empty dict are false.\<close>

definition truthy :: "'a list option \<Rightarrow> bool" where
  "truthy v = (case v of None \<Rightarrow> False | Some x \<Rightarrow> x \<noteq> [])"

definition register_worker :: "nat \<Rightarrow> string option \<Rightarrow> coordinator \<Rightarrow> (failure + reply) \<times> coordinator" where
  "register_worker now uid_field s =
     (case uid_field of
        None \<Rightarrow> (Inl MissingFields, s)
      | Some uid \<Rightarrow>
          if uid = [] then (Inl MissingFields, s)
          else (case create_user now uid (db s) of
                  (True, d) \<Rightarrow> (Inr (Registered uid 0), s\<lparr>db := d\<rparr>)
                | (False, d) \<Rightarrow>
                    (case get_user uid d of
                       Some user \<Rightarrow> (Inr (AlreadyRegistered uid (total_tokens user)), s\<lparr>db := d\<rparr>)
                     | None \<Rightarrow> (Inl (Uncaught TypeError), s\<lparr>db := d\<rparr>))))"

text \<open>
  \<^verbatim>\<open>get_task\<close> reads the table (\<^verbatim>\<open>get_pending_task\<close>) and writes it (\<^verbatim>\<open>assign_task\<close>) in
  two separate database calls. The handler is therefore given in two parts: what it does
  up to and including the read, and what it does from the write on.
\<close>

definition get_task_select :: "string option \<Rightarrow> coordinator \<Rightarrow> failure + (string \<times> task_row)" where
  "get_task_select uid_field s =
     (case uid_field of
        None \<Rightarrow> Inl MissingFields
      | Some uid \<Rightarrow>
          if uid = [] then Inl MissingFields
          else (case get_user uid (db s) of
                  None \<Rightarrow> Inl UserNotRegistered
                | Some user \<Rightarrow>
                    (case get_pending_task (db s) of
                       None \<Rightarrow> Inl NoTasksAvailable
                     | Some task \<Rightarrow> Inr (uid, task))))"

definition get_task_assign :: "string \<Rightarrow> task_row \<Rightarrow> coordinator \<Rightarrow> reply \<times> coordinator" where
  "get_task_assign uid task s =
     (let d = assign_task (task_id task) uid (db s);
          model_params = get_trainable_parameters (model s)
      in (TaskIssued (task_id task) (data_batch task) model_params (tokens_reward task),
          s\<lparr>db := d\<rparr>))"

definition get_task :: "string option \<Rightarrow> coordinator \<Rightarrow> (failure + reply) \<times> coordinator" where
  "get_task uid_field s =
     (case get_task_select uid_field s of
        Inl f \<Rightarrow> (Inl f, s)
      | Inr (uid, task) \<Rightarrow> (case get_task_assign uid task s of (r, s') \<Rightarrow> (Inr r, s')))"

text \<open>
  \<^verbatim>\<open>submit_result\<close>; now1 is the clock read by \<^verbatim>\<open>complete_task\<close>, now2 the one read by
  \<^verbatim>\<open>add_tokens\<close>.
\<close>

definition submit_result ::
  "nat \<Rightarrow> nat \<Rightarrow> string option \<Rightarrow> string option \<Rightarrow> params option \<Rightarrow> coordinator
     \<Rightarrow> (failure + reply) \<times> coordinator" where
  "submit_result now1 now2 uid_field tid_field updated_parameters s =
     (if \<not> (truthy uid_field \<and> truthy tid_field \<and> truthy updated_parameters)
      then (Inl MissingFields, s)
      else
        (let uid = the uid_field; tid = the tid_field; upd = the updated_parameters in
         case get_user uid (db s) of
           None \<Rightarrow> (Inl UserNotRegistered, s)
         | Some user \<Rightarrow>
             (let d1 = complete_task now1 tid upd (db s) in
              case aggregate_parameters upd (1 / 10) (model s) of
                (Some e, m) \<Rightarrow> (Inl (Uncaught e), s\<lparr>db := d1, model := m\<rparr>)
              | (None, m) \<Rightarrow>
                  (let tokens_earned = tokens_per_task s;
                       d2 = add_tokens now2 uid tokens_earned ''reward''
                              (''Completed training task '' @ tid) d1
                   in case get_user uid d2 of
                        None \<Rightarrow> (Inl (Uncaught TypeError), s\<lparr>db := d2, model := m\<rparr>)
                      | Some user' \<Rightarrow>
                          (Inr (TaskCompleted tokens_earned (total_tokens user')),
                           s\<lparr>db := d2, model := m\<rparr>)))))"

definition get_balance :: "string option \<Rightarrow> coordinator \<Rightarrow> (failure + reply) \<times> coordinator" where
  "get_balance uid_field s =
     (case uid_field of
        None \<Rightarrow> (Inl MissingFields, s)
      | Some uid \<Rightarrow>
          if uid = [] then (Inl MissingFields, s)
          else (case get_user_stats uid (db s) of
                  None \<Rightarrow> (Inl UserNotFound, s)
                | Some stats \<Rightarrow> (Inr (BalanceReport stats), s)))"

text \<open>
  \<^verbatim>\<open>generate_response\<close>: the forward pass of the network is a black box whose output is
  dropped; the text returned depends on the prompt alone.
\<close>

definition generate_response :: "string \<Rightarrow> string" where
  "generate_response prompt =
     ''Model response to: '' @ [CHR 0x27] @ prompt @ [CHR 0x27] @
     '' (Note: This is a demonstration. The model needs more training to generate meaningful responses.)''"

definition tokens_cost :: real where
  "tokens_cost = 1 / 2"

definition query_model :: "nat \<Rightarrow> string option \<Rightarrow> string option \<Rightarrow> coordinator \<Rightarrow> (failure + reply) \<times> coordinator" where
  "query_model now uid_field prompt_field s =
     (if \<not> (truthy uid_field \<and> truthy prompt_field) then (Inl MissingFields, s)
      else
        (let uid = the uid_field; prompt = the prompt_field in
         case get_user uid (db s) of
           None \<Rightarrow> (Inl UserNotRegistered, s)
         | Some user \<Rightarrow>
             if total_tokens user < tokens_cost
             then (Inl (InsufficientTokens tokens_cost (total_tokens user)), s)
             else
               (let d = add_tokens now uid (- tokens_cost) ''query'' ''Model query'' (db s);
                    response = generate_response prompt
                in case get_user uid d of
                     None \<Rightarrow> (Inl (Uncaught TypeError), s\<lparr>db := d\<rparr>)
                   | Some user' \<Rightarrow>
                       (Inr (QueryAnswered response tokens_cost (total_tokens user')),
                        s\<lparr>db := d\<rparr>))))"


definition random_sample :: "'a list \<Rightarrow> nat \<Rightarrow> nat list \<Rightarrow> exn + 'a list" where
  "random_sample population k idxs =
     (if length population < k then Inl ValueError
      else Inr (map (\<lambda>i. population ! i) idxs))"

text \<open>
  \<^verbatim>\<open>generate_tasks(num_tasks)\<close>: iteration i reads the clock \<open>clock i\<close>, draws the
  positions \<open>draws i\<close> and the hexadecimal digits \<open>hexes i\<close>. The loop stops at the
  first exception.
\<close>

fun generate_from ::
  "(nat \<Rightarrow> nat) \<Rightarrow> (nat \<Rightarrow> nat list) \<Rightarrow> (nat \<Rightarrow> string) \<Rightarrow> nat \<Rightarrow> nat \<Rightarrow> coordinator
     \<Rightarrow> exn option \<times> coordinator" where
  "generate_from clock draws hexes i 0 s = (None, s)"
| "generate_from clock draws hexes i (Suc n) s =
     (case random_sample (training_data s) (min 3 (length (training_data s))) (draws i) of
        Inl e \<Rightarrow> (Some e, s)
      | Inr batch \<Rightarrow>
          (let tid = ''task-'' @ hexes i
           in case create_task (clock i) tid batch (tokens_per_task s) (db s) of
                Inl e \<Rightarrow> (Some e, s)
              | Inr d \<Rightarrow> generate_from clock draws hexes (Suc i) n (s\<lparr>db := d\<rparr>)))"

definition generate_tasks ::
  "(nat \<Rightarrow> nat) \<Rightarrow> (nat \<Rightarrow> nat list) \<Rightarrow> (nat \<Rightarrow> string) \<Rightarrow> nat \<Rightarrow> coordinator
     \<Rightarrow> exn option \<times> coordinator" where
  "generate_tasks clock draws hexes num_tasks s = generate_from clock draws hexes 0 num_tasks s"

subsection \<open>Sequences of requests, and two requests in flight\<close>

datatype request =
    Register nat "string option"
  | GetTask "string option"
  | SubmitResult nat nat "string option" "string option" "params option"
  | GetBalance "string option"
  | QueryModel nat "string option" "string option"

fun handle :: "request \<Rightarrow> coordinator \<Rightarrow> (failure + reply) \<times> coordinator" where
  "handle (Register now u) s = register_worker now u s"
| "handle (GetTask u) s = get_task u s"
| "handle (SubmitResult now1 now2 u t p) s = submit_result now1 now2 u t p s"
| "handle (GetBalance u) s = get_balance u s"
| "handle (QueryModel now u p) s = query_model now u p s"

text \<open>
  One round of \<^verbatim>\<open>background_task_generator\<close>: ten new tasks when no task is pending.
\<close>

definition replenish ::
  "(nat \<Rightarrow> nat) \<Rightarrow> (nat \<Rightarrow> nat list) \<Rightarrow> (nat \<Rightarrow> string) \<Rightarrow> coordinator
     \<Rightarrow> exn option \<times> coordinator" where
  "replenish clock draws hexes s =
     (case get_pending_task (db s) of
        None \<Rightarrow> generate_tasks clock draws hexes 10 s
      | Some task \<Rightarrow> (None, s))"

text \<open>What happens to the server over time: requests, and rounds of the generator.\<close>

datatype event =
    Request request
  | Generator "nat \<Rightarrow> nat" "nat \<Rightarrow> nat list" "nat \<Rightarrow> string"

fun occur :: "event \<Rightarrow> coordinator \<Rightarrow> coordinator" where
  "occur (Request r) s = snd (handle r s)"
| "occur (Generator clock draws hexes) s = snd (replenish clock draws hexes s)"

fun serve :: "event list \<Rightarrow> coordinator \<Rightarrow> coordinator" where
  "serve [] s = s"
| "serve (e # es) s = serve es (occur e s)"

text \<open>
  The server runs with \<^verbatim>\<open>threaded=True\<close>: each request has a thread, and the threads share
  the one database connection. A \<^verbatim>\<open>get_task\<close> thread is before its read, between its read
  and its write (holding the row it read), or done. One move of the scheduler lets one
  thread make its next database call.
\<close>

datatype thread =
    Arrived "string option"
  | Selected string task_row
  | Answered "failure + reply"

fun thread_step :: "thread \<Rightarrow> coordinator \<Rightarrow> thread \<times> coordinator" where
  "thread_step (Arrived uid_field) s =
     (case get_task_select uid_field s of
        Inl f \<Rightarrow> (Answered (Inl f), s)
      | Inr (uid, task) \<Rightarrow> (Selected uid task, s))"
| "thread_step (Selected uid task) s =
     (case get_task_assign uid task s of (r, s') \<Rightarrow> (Answered (Inr r), s'))"
| "thread_step (Answered r) s = (Answered r, s)"

fun run_schedule :: "nat list \<Rightarrow> thread list \<Rightarrow> coordinator \<Rightarrow> thread list \<times> coordinator" where
  "run_schedule [] ths s = (ths, s)"
| "run_schedule (i # sched) ths s =
     (if i < length ths
      then (case thread_step (ths ! i) s of (t', s') \<Rightarrow> run_schedule sched (ths[i := t']) s')
      else run_schedule sched ths s)"

text \<open>
  The ledger agrees with its log: every logged transaction belongs to an account, and
  every account's balance is the sum of the amounts logged under its user_id.
\<close>

definition logged_sum :: "string \<Rightarrow> transaction_row list \<Rightarrow> real" where
  "logged_sum uid txns = sum_list (map amount (filter (\<lambda>t. txn_user_id t = uid) txns))"

definition ledger_consistent :: "database \<Rightarrow> bool" where
  "ledger_consistent d =
     (list_all (\<lambda>t. txn_user_id t \<in> set (map user_id (users d))) (transactions d) \<and>
      list_all (\<lambda>u. total_tokens u = logged_sum (user_id u) (transactions d)) (users d))"

text \<open>
  What one step does to the ledger, as seen from the account uid: the log of the later
  database is the log of the earlier one with at most one record appended, and the
  account, if it existed, still exists, its balance changed by the amounts appended
  under its user_id.
\<close>

definition appended :: "database \<Rightarrow> database \<Rightarrow> transaction_row list" where
  "appended d d' = drop (length (transactions d)) (transactions d')"

definition balance_of :: "string \<Rightarrow> database \<Rightarrow> real" where
  "balance_of uid d = (case get_user uid d of None \<Rightarrow> 0 | Some u \<Rightarrow> total_tokens u)"

definition ledger_step :: "string \<Rightarrow> database \<Rightarrow> database \<Rightarrow> bool" where
  "ledger_step uid d d' =
     (transactions d' = transactions d @ appended d d' \<and>
      length (appended d d') \<le> 1 \<and>
      (get_user uid d \<noteq> None \<longrightarrow>
         get_user uid d' \<noteq> None \<and>
         balance_of uid d' = balance_of uid d + logged_sum uid (appended d d')))"

subsection \<open>Concrete servers used to run the handlers\<close>

definition demo_model :: params where
  "demo_model = [(''w'', Arr [Num 1, Num 2]), (''b'', Arr [Num 0])]"

definition demo_user :: "string \<Rightarrow> real \<Rightarrow> user_row" where
  "demo_user uid bal = \<lparr>user_id = uid, created_at = 1, total_tokens = bal, total_work_done = 0\<rparr>"

definition demo_task :: "task_status \<Rightarrow> string option \<Rightarrow> task_row" where
  "demo_task st who =
     \<lparr>task_id = ''task-1'', task_created_at = 0, assigned_to = who, status = st,
      data_batch = [''Machine learning models learn from data''], result = None,
      tokens_reward = 1, completed_at = None\<rparr>"

definition demo_server :: "user_row list \<Rightarrow> task_row list \<Rightarrow> string list \<Rightarrow> coordinator" where
  "demo_server us ts corpus =
     \<lparr>db = \<lparr>users = us, tasks = ts, transactions = []\<rparr>, model = demo_model,
      training_data = corpus, tokens_per_task = 1\<rparr>"

section \<open>Properties\<close>

subsection \<open>Registration and paid queries\<close>

lemma get_user_mem: "get_user uid d = Some u \<Longrightarrow> uid \<in> user_id ` set (users d)"
  by (auto simp: get_user_def find_Some_iff)

text \<open>
  Accounts are made by \<open>register_worker\<close> alone, and never under an empty user_id: a
  database without such an account stays without one, whatever the server is asked.
\<close>

lemma register_worker_users:
  "users (db (snd (register_worker now u s))) = users (db s) \<or>
   (\<exists>uid. uid \<noteq> [] \<and> users (db (snd (register_worker now u s))) =
      users (db s) @ [\<lparr>user_id = uid, created_at = now, total_tokens = 0, total_work_done = 0\<rparr>])"
proof (cases u)
  case None
  then show ?thesis by (simp add: register_worker_def)
next
  case (Some uid)
  then show ?thesis
    by (cases "uid = []")
       (auto simp: register_worker_def create_user_def split: option.splits)
qed

lemma add_tokens_user_ids: "map user_id (users (add_tokens now uid a ty de d)) = map user_id (users d)"
  by (induction "users d") (auto simp: add_tokens_def)

lemma handle_user_ids:
  "[] \<notin> set (map user_id (users (db s))) \<Longrightarrow>
   [] \<notin> set (map user_id (users (db (snd (handle r s)))))"
proof (cases r)
  case (Register now u)
  assume "[] \<notin> set (map user_id (users (db s)))"
  with register_worker_users [of now u s] show ?thesis
    unfolding Register by auto
next
  case (GetTask u)
  assume "[] \<notin> set (map user_id (users (db s)))"
  then show ?thesis
    unfolding GetTask
    by (auto simp: get_task_def get_task_assign_def assign_task_def split: sum.splits prod.splits)
next
  case (SubmitResult now1 now2 u t p)
  assume "[] \<notin> set (map user_id (users (db s)))"
  then show ?thesis
    unfolding SubmitResult
    by (auto simp: submit_result_def Let_def add_tokens_user_ids complete_task_def
        simp del: set_map split: option.splits prod.splits)
next
  case (GetBalance u)
  assume "[] \<notin> set (map user_id (users (db s)))"
  then show ?thesis
    unfolding GetBalance by (auto simp: get_balance_def split: option.splits)
next
  case (QueryModel now u p)
  assume "[] \<notin> set (map user_id (users (db s)))"
  then show ?thesis
    unfolding QueryModel
    by (auto simp: query_model_def Let_def add_tokens_user_ids simp del: set_map
        split: option.splits)
qed

text \<open>
  C8. A register call for a worker_id that already has an account succeeds, reports the
  account's current balance, and changes nothing: the whole server state, and with it
  the balance and created_at of the account, is as before. (An account's user_id is
  never empty: \<open>register_worker\<close> turns an empty user_id away before \<open>create_user\<close>.)
\<close>

theorem register_existing_keeps_account:
  "uid \<noteq> [] \<Longrightarrow> get_user uid (db s) = Some u \<Longrightarrow>
   register_worker now (Some uid) s = (Inr (AlreadyRegistered uid (total_tokens u)), s)"
  by (simp add: register_worker_def create_user_def get_user_mem)

theorem register_existing_keeps_account_witness:
  "''alice'' \<noteq> [] \<and>
   get_user ''alice'' (db (demo_server [demo_user ''alice'' 3] [] [])) = Some (demo_user ''alice'' 3) \<and>
   register_worker 9 (Some ''alice'') (demo_server [demo_user ''alice'' 3] [] []) =
     (Inr (AlreadyRegistered ''alice'' 3), demo_server [demo_user ''alice'' 3] [] [])"
proof -
  have g: "get_user ''alice'' (db (demo_server [demo_user ''alice'' 3] [] [])) = Some (demo_user ''alice'' 3)"
    by (simp add: get_user_def demo_server_def demo_user_def)
  have t: "total_tokens (demo_user ''alice'' 3) = 3" by (simp add: demo_user_def)
  show ?thesis
    using register_existing_keeps_account [OF _ g, of 9] g t by simp
qed

text \<open>
  C10. A submit_result request whose updated_parameters field is absent or the empty
  mapping is answered "Missing required fields", and the server state is unchanged:
  no task is completed, no blend runs, no token is credited.
\<close>

theorem empty_update_rejected:
  "p = None \<or> p = Some [] \<Longrightarrow>
   submit_result now1 now2 u t p s = (Inl MissingFields, s)"
  by (auto simp: submit_result_def truthy_def)

theorem empty_update_rejected_witness:
  "submit_result 4 5 (Some ''alice'') (Some ''task-1'') (Some [])
     (demo_server [demo_user ''alice'' 0] [demo_task Assigned (Some ''alice'')] []) =
   (Inl MissingFields, demo_server [demo_user ''alice'' 0] [demo_task Assigned (Some ''alice'')] [])"
  using empty_update_rejected [of "Some []"] by simp

text \<open>
  C7, as the claim states it, fails: a registered worker whose balance 0.3 is below the
  cost 0.5 and who sends an empty prompt is answered "user_id and prompt are required",
  not "Insufficient tokens". The check of the fields comes first.
\<close>

theorem query_missing_prompt_counterexample:
  "get_user ''alice'' (db (demo_server [demo_user ''alice'' (3 / 10)] [] [])) =
     Some (demo_user ''alice'' (3 / 10)) \<and>
   total_tokens (demo_user ''alice'' (3 / 10)) < tokens_cost \<and>
   query_model 7 (Some ''alice'') (Some []) (demo_server [demo_user ''alice'' (3 / 10)] [] []) =
     (Inl MissingFields, demo_server [demo_user ''alice'' (3 / 10)] [] [])"
  by (simp add: query_model_def truthy_def get_user_def demo_server_def demo_user_def tokens_cost_def)

text \<open>
  C7, amended. A query_model call with a non-empty prompt by a registered worker whose
  balance is strictly below the cost 0.5 is answered "Insufficient tokens" (with the
  cost and the balance), and the server state is unchanged: balance, transaction log
  and everything else.
\<close>

theorem insufficient_tokens_no_change:
  "uid \<noteq> [] \<Longrightarrow> prompt \<noteq> [] \<Longrightarrow> get_user uid (db s) = Some u \<Longrightarrow>
   total_tokens u < tokens_cost \<Longrightarrow>
   query_model now (Some uid) (Some prompt) s =
     (Inl (InsufficientTokens tokens_cost (total_tokens u)), s)"
  by (simp add: query_model_def truthy_def)

theorem insufficient_tokens_no_change_witness:
  "query_model 7 (Some ''alice'') (Some ''What is machine learning?'')
     (demo_server [demo_user ''alice'' (3 / 10)] [] []) =
   (Inl (InsufficientTokens (1 / 2) (3 / 10)), demo_server [demo_user ''alice'' (3 / 10)] [] [])"
proof -
  have g: "get_user ''alice'' (db (demo_server [demo_user ''alice'' (3 / 10)] [] [])) =
     Some (demo_user ''alice'' (3 / 10))"
    by (simp add: get_user_def demo_server_def demo_user_def)
  have lt: "total_tokens (demo_user ''alice'' (3 / 10)) < tokens_cost"
    by (simp add: demo_user_def tokens_cost_def)
  have t: "total_tokens (demo_user ''alice'' (3 / 10)) = 3 / 10" by (simp add: demo_user_def)
  show ?thesis
    using insufficient_tokens_no_change [OF _ _ g lt, of "''What is machine learning?''" 7] t
    by (simp add: tokens_cost_def)
qed

subsection \<open>Submitting results\<close>

lemma find_user_credit:
  "find (\<lambda>u. user_id u = uid)
     (map (\<lambda>u. if user_id u = uid then u\<lparr>total_tokens := total_tokens u + a\<rparr> else u) us) =
   map_option (\<lambda>u. u\<lparr>total_tokens := total_tokens u + a\<rparr>) (find (\<lambda>u. user_id u = uid) us)"
  by (induction us) auto

lemma get_user_add_tokens:
  "get_user uid (add_tokens now uid a ty de d) =
   map_option (\<lambda>u. u\<lparr>total_tokens := total_tokens u + a\<rparr>) (get_user uid d)"
  by (simp add: get_user_def add_tokens_def find_user_credit)

lemma get_user_complete_task: "get_user uid (complete_task now tid res d) = get_user uid d"
  by (simp add: get_user_def complete_task_def)

lemma submit_result_accepted:
  assumes "uid \<noteq> []" "tid \<noteq> []" "upd \<noteq> []"
    and "get_user uid (db s) = Some u"
    and "aggregate_parameters upd (1 / 10) (model s) = (None, m)"
  shows "submit_result now1 now2 (Some uid) (Some tid) (Some upd) s =
     (Inr (TaskCompleted (tokens_per_task s) (total_tokens u + tokens_per_task s)),
      s\<lparr>db := add_tokens now2 uid (tokens_per_task s) ''reward''
                (''Completed training task '' @ tid) (complete_task now1 tid upd (db s)),
        model := m\<rparr>)"
  using assms
  by (simp add: submit_result_def truthy_def Let_def get_user_add_tokens get_user_complete_task)

lemma demo_blend:
  "aggregate_parameters [(''w'', Arr [Num 3, Num 4])] (1 / 10) demo_model =
     (None, [(''w'', Arr [Num (6 / 5), Num (11 / 5)]), (''b'', Arr [Num 0])])"
  by (simp add: aggregate_parameters_def get_trainable_parameters_def demo_model_def
      weighted_average_def torch_tensor_def tensor_add_def broadcast_shapes_def
      set_parameters_def load_state_dict_def load_param_def size_mismatch_def)


text \<open>
  C2, amended. \<open>submit_result\<close> never looks at the task's status, nor at whether the task
  exists: for a registered worker, a non-empty task_id and a non-empty update whose blend
  raises nothing, the call succeeds, every row with that task_id (none, when the task is
  unknown) is set to completed with the new result and completion time whatever its status
  was, and the worker is credited tokens_per_task, on every such call.
\<close>

theorem submit_result_any_task_state:
  "uid \<noteq> [] \<Longrightarrow> tid \<noteq> [] \<Longrightarrow> upd \<noteq> [] \<Longrightarrow> get_user uid (db s) = Some u \<Longrightarrow>
   aggregate_parameters upd (1 / 10) (model s) = (None, m) \<Longrightarrow>
   (case submit_result now1 now2 (Some uid) (Some tid) (Some upd) s of
      (r, s') \<Rightarrow>
        r = Inr (TaskCompleted (tokens_per_task s) (total_tokens u + tokens_per_task s)) \<and>
        get_user uid (db s') = Some (u\<lparr>total_tokens := total_tokens u + tokens_per_task s\<rparr>) \<and>
        tasks (db s') =
          map (\<lambda>t. if task_id t = tid
                    then t\<lparr>status := Completed, result := Some upd, completed_at := Some now1\<rparr>
                    else t) (tasks (db s)))"
  by (simp add: submit_result_accepted get_user_add_tokens get_user_complete_task)
     (simp add: add_tokens_def complete_task_def)

text \<open>
  C2, as the claim states it, fails: submitting again for a task that is already
  completed succeeds, overwrites the task's result and completion time, and credits the
  worker a second time (balance 1 becomes 2).
\<close>

theorem resubmit_completed_counterexample:
  "submit_result 4 5 (Some ''alice'') (Some ''task-1'') (Some [(''w'', Arr [Num 3, Num 4])])
     (demo_server [demo_user ''alice'' 1] [demo_task Completed (Some ''alice'')] []) =
   (Inr (TaskCompleted 1 2),
    \<lparr>db = \<lparr>users = [demo_user ''alice'' 2],
           tasks = [(demo_task Completed (Some ''alice''))
                      \<lparr>result := Some [(''w'', Arr [Num 3, Num 4])], completed_at := Some 4\<rparr>],
           transactions = [\<lparr>transaction_id = 1, txn_user_id = ''alice'', amount = 1,
                            txn_type = ''reward'',
                            description = ''Completed training task task-1'',
                            timestamp = 5\<rparr>]\<rparr>,
      model = [(''w'', Arr [Num (6 / 5), Num (11 / 5)]), (''b'', Arr [Num 0])],
      training_data = [], tokens_per_task = 1\<rparr>)"
proof -
  have g: "get_user ''alice'' (db (demo_server [demo_user ''alice'' 1] [demo_task Completed (Some ''alice'')] []))
      = Some (demo_user ''alice'' 1)"
    by (simp add: get_user_def demo_server_def demo_user_def)
  have b: "aggregate_parameters [(''w'', Arr [Num 3, Num 4])] (1 / 10)
      (model (demo_server [demo_user ''alice'' 1] [demo_task Completed (Some ''alice'')] [])) =
      (None, [(''w'', Arr [Num (6 / 5), Num (11 / 5)]), (''b'', Arr [Num 0])])"
    by (simp add: demo_server_def demo_blend)
  show ?thesis
    by (simp add: submit_result_accepted [OF _ _ _ g b])
       (simp add: demo_server_def demo_user_def demo_task_def add_tokens_def complete_task_def)
qed

theorem submit_result_any_task_state_witness:
  "(case submit_result 4 5 (Some ''alice'') (Some ''task-9'') (Some [(''w'', Arr [Num 3, Num 4])])
          (demo_server [demo_user ''alice'' 1] [demo_task Assigned (Some ''alice'')] []) of
      (r, s') \<Rightarrow>
        r = Inr (TaskCompleted 1 2) \<and>
        get_user ''alice'' (db s') = Some (demo_user ''alice'' 2) \<and>
        tasks (db s') = [demo_task Assigned (Some ''alice'')])"
proof -
  have g: "get_user ''alice'' (db (demo_server [demo_user ''alice'' 1] [demo_task Assigned (Some ''alice'')] []))
      = Some (demo_user ''alice'' 1)"
    by (simp add: get_user_def demo_server_def demo_user_def)
  have b: "aggregate_parameters [(''w'', Arr [Num 3, Num 4])] (1 / 10)
      (model (demo_server [demo_user ''alice'' 1] [demo_task Assigned (Some ''alice'')] [])) =
      (None, [(''w'', Arr [Num (6 / 5), Num (11 / 5)]), (''b'', Arr [Num 0])])"
    by (simp add: demo_server_def demo_blend)
  have "''alice'' \<noteq> []" "''task-9'' \<noteq> []" "[(''w'', Arr [Num 3, Num 4])] \<noteq> []" by simp_all
  from submit_result_any_task_state [OF this g b, of 4 5]
  show ?thesis
    by (simp add: demo_server_def demo_user_def demo_task_def split: prod.splits)
qed

text \<open>
  C3, amended. \<open>submit_result\<close> does not compare the task's assigned_to with the caller:
  a registered worker who submits a non-empty update (whose blend raises nothing) for a
  task assigned to another worker is accepted; the task becomes completed with that
  result, still assigned to the other worker, the blend is applied, and the caller is
  credited tokens_per_task.
\<close>

theorem submit_result_ignores_owner:
  "uid \<noteq> [] \<Longrightarrow> tid \<noteq> [] \<Longrightarrow> upd \<noteq> [] \<Longrightarrow> get_user uid (db s) = Some u \<Longrightarrow>
   aggregate_parameters upd (1 / 10) (model s) = (None, m) \<Longrightarrow>
   t \<in> set (tasks (db s)) \<Longrightarrow> task_id t = tid \<Longrightarrow> assigned_to t = Some other \<Longrightarrow> other \<noteq> uid \<Longrightarrow>
   (case submit_result now1 now2 (Some uid) (Some tid) (Some upd) s of
      (r, s') \<Rightarrow>
        r = Inr (TaskCompleted (tokens_per_task s) (total_tokens u + tokens_per_task s)) \<and>
        t\<lparr>status := Completed, result := Some upd, completed_at := Some now1\<rparr>
          \<in> set (tasks (db s')) \<and>
        model s' = m \<and>
        get_user uid (db s') = Some (u\<lparr>total_tokens := total_tokens u + tokens_per_task s\<rparr>))"
  by (simp add: submit_result_accepted get_user_add_tokens get_user_complete_task)
     (force simp: add_tokens_def complete_task_def)

text \<open>
  C3, as the claim states it, fails: bob submits a result for the task assigned to alice;
  the reply is a success, the task is completed, the model has moved, and bob is credited.
\<close>

theorem submit_other_workers_task_counterexample:
  "submit_result 4 5 (Some ''bob'') (Some ''task-1'') (Some [(''w'', Arr [Num 3, Num 4])])
     (demo_server [demo_user ''alice'' 0, demo_user ''bob'' 0] [demo_task Assigned (Some ''alice'')] []) =
   (Inr (TaskCompleted 1 1),
    \<lparr>db = \<lparr>users = [demo_user ''alice'' 0, demo_user ''bob'' 1],
           tasks = [(demo_task Completed (Some ''alice''))
                      \<lparr>result := Some [(''w'', Arr [Num 3, Num 4])], completed_at := Some 4\<rparr>],
           transactions = [\<lparr>transaction_id = 1, txn_user_id = ''bob'', amount = 1,
                            txn_type = ''reward'',
                            description = ''Completed training task task-1'',
                            timestamp = 5\<rparr>]\<rparr>,
      model = [(''w'', Arr [Num (6 / 5), Num (11 / 5)]), (''b'', Arr [Num 0])],
      training_data = [], tokens_per_task = 1\<rparr>)"
proof -
  have g: "get_user ''bob'' (db (demo_server [demo_user ''alice'' 0, demo_user ''bob'' 0]
        [demo_task Assigned (Some ''alice'')] [])) = Some (demo_user ''bob'' 0)"
    by (simp add: get_user_def demo_server_def demo_user_def)
  have b: "aggregate_parameters [(''w'', Arr [Num 3, Num 4])] (1 / 10)
      (model (demo_server [demo_user ''alice'' 0, demo_user ''bob'' 0]
        [demo_task Assigned (Some ''alice'')] [])) =
      (None, [(''w'', Arr [Num (6 / 5), Num (11 / 5)]), (''b'', Arr [Num 0])])"
    by (simp add: demo_server_def demo_blend)
  show ?thesis
    by (simp add: submit_result_accepted [OF _ _ _ g b])
       (simp add: demo_server_def demo_user_def demo_task_def add_tokens_def complete_task_def)
qed

theorem submit_result_ignores_owner_witness:
  "(case submit_result 6 7 (Some ''bob'') (Some ''task-1'') (Some [(''w'', Arr [Num 3, Num 4])])
          (demo_server [demo_user ''bob'' 0] [demo_task Assigned (Some ''carol'')] []) of
      (r, s') \<Rightarrow>
        r = Inr (TaskCompleted 1 1) \<and>
        (demo_task Completed (Some ''carol''))
           \<lparr>result := Some [(''w'', Arr [Num 3, Num 4])], completed_at := Some 6\<rparr>
          \<in> set (tasks (db s')) \<and>
        model s' = [(''w'', Arr [Num (6 / 5), Num (11 / 5)]), (''b'', Arr [Num 0])] \<and>
        get_user ''bob'' (db s') = Some (demo_user ''bob'' 1))"
proof -
  let ?s = "demo_server [demo_user ''bob'' 0] [demo_task Assigned (Some ''carol'')] []"
  have g: "get_user ''bob'' (db ?s) = Some (demo_user ''bob'' 0)"
    by (simp add: get_user_def demo_server_def demo_user_def)
  have b: "aggregate_parameters [(''w'', Arr [Num 3, Num 4])] (1 / 10) (model ?s) =
      (None, [(''w'', Arr [Num (6 / 5), Num (11 / 5)]), (''b'', Arr [Num 0])])"
    by (simp add: demo_server_def demo_blend)
  have n: "''bob'' \<noteq> []" "''task-1'' \<noteq> []" "[(''w'', Arr [Num 3, Num 4])] \<noteq> []" by simp_all
  have t: "demo_task Assigned (Some ''carol'') \<in> set (tasks (db ?s))"
    "task_id (demo_task Assigned (Some ''carol'')) = ''task-1''"
    "assigned_to (demo_task Assigned (Some ''carol'')) = Some ''carol''"
    "''carol'' \<noteq> ''bob''"
    by (simp_all add: demo_server_def demo_task_def)
  from submit_result_ignores_owner [OF n g b t, of 6 7]
  show ?thesis
    by (simp add: demo_server_def demo_user_def demo_task_def split: prod.splits)
qed

subsection \<open>Handing out tasks\<close>

text \<open>A thread that is left alone for its two database calls does what \<open>get_task\<close> does.\<close>

lemma get_task_as_two_steps:
  "run_schedule [0, 0] [Arrived u] s = ([Answered (fst (get_task u s))], snd (get_task u s))"
  by (simp add: get_task_def split: sum.splits prod.splits)

text \<open>
  One after the other, two \<open>get_task\<close> requests on a table with one pending task: the
  first is handed the task, the second is told that no task is available.
\<close>

lemma serial_get_task_one_winner:
  "run_schedule [0, 0, 1, 1] [Arrived (Some ''alice''), Arrived (Some ''bob'')]
     (demo_server [demo_user ''alice'' 0, demo_user ''bob'' 0] [demo_task Pending None] []) =
   ([Answered (Inr (TaskIssued ''task-1'' [''Machine learning models learn from data''] demo_model 1)),
     Answered (Inl NoTasksAvailable)],
    demo_server [demo_user ''alice'' 0, demo_user ''bob'' 0] [demo_task Assigned (Some ''alice'')] [])"
  by (simp add: get_task_select_def get_task_assign_def get_user_def get_pending_task_def
      assign_task_def get_trainable_parameters_def demo_server_def demo_user_def demo_task_def)

text \<open>
  C1. Two concurrent get_task calls on a ledger with exactly one pending task must hand the
  task to exactly one caller. In the code the selection and the assignment are two
  database calls with nothing that keeps them together: when both threads read before
  either writes, both requests are answered with the same task, and the row ends up
  assigned to the thread that wrote last.
\<close>

theorem concurrent_get_task_double_assignment:
  "run_schedule [0, 1, 0, 1] [Arrived (Some ''alice''), Arrived (Some ''bob'')]
     (demo_server [demo_user ''alice'' 0, demo_user ''bob'' 0] [demo_task Pending None] []) =
   ([Answered (Inr (TaskIssued ''task-1'' [''Machine learning models learn from data''] demo_model 1)),
     Answered (Inr (TaskIssued ''task-1'' [''Machine learning models learn from data''] demo_model 1))],
    demo_server [demo_user ''alice'' 0, demo_user ''bob'' 0] [demo_task Assigned (Some ''bob'')] [])"
  by (simp add: get_task_select_def get_task_assign_def get_user_def get_pending_task_def
      assign_task_def get_trainable_parameters_def demo_server_def demo_user_def demo_task_def)

subsection \<open>Generating tasks\<close>







subsection \<open>The ledger and its transaction log\<close>

lemma logged_sum_append:
  "logged_sum uid (txns @ [t]) =
   logged_sum uid txns + (if txn_user_id t = uid then amount t else 0)"
  by (simp add: logged_sum_def)

lemma logged_sum_stranger:
  "list_all (\<lambda>t. txn_user_id t \<in> ids) txns \<Longrightarrow> uid \<notin> ids \<Longrightarrow> logged_sum uid txns = 0"
  by (induction txns) (auto simp: logged_sum_def)

lemma ledger_consistent_empty: "ledger_consistent empty_database"
  by (simp add: ledger_consistent_def empty_database_def)

lemma ledger_consistent_cong:
  "users d' = users d \<Longrightarrow> transactions d' = transactions d \<Longrightarrow>
   ledger_consistent d' = ledger_consistent d"
  by (simp add: ledger_consistent_def)

text \<open>The two operations that write accounts or log records keep the ledger consistent.\<close>

lemma ledger_consistent_create_user:
  assumes "ledger_consistent d"
  shows "ledger_consistent (snd (create_user now uid d))"
proof (cases "uid \<in> set (map user_id (users d))")
  case True
  with assms show ?thesis by (simp add: create_user_def)
next
  case False
  from assms have own: "list_all (\<lambda>t. txn_user_id t \<in> set (map user_id (users d))) (transactions d)"
    by (simp add: ledger_consistent_def)
  then have zero: "logged_sum uid (transactions d) = 0"
    using False by (rule logged_sum_stranger)
  from own have "list_all (\<lambda>t. txn_user_id t \<in> insert uid (set (map user_id (users d)))) (transactions d)"
    by (simp add: list_all_iff)
  with assms zero False show ?thesis
    by (simp add: create_user_def ledger_consistent_def)
qed

lemma ledger_consistent_add_tokens:
  assumes "ledger_consistent d" and "uid \<in> user_id ` set (users d)"
  shows "ledger_consistent (add_tokens now uid a ty de d)"
proof -
  let ?us = "map (\<lambda>u. if user_id u = uid
        then u\<lparr>total_tokens := total_tokens u + a\<rparr> else u) (users d)"
  have "map user_id ?us = map user_id (users d)"
    by (induction "users d") auto
  then have ids: "set (map user_id ?us) = set (map user_id (users d))"
    by (simp only:)
  from assms have own: "\<forall>t\<in>set (transactions d). txn_user_id t \<in> set (map user_id (users d))"
    and bal: "\<forall>u\<in>set (users d). total_tokens u = logged_sum (user_id u) (transactions d)"
    by (simp_all add: ledger_consistent_def list_all_iff)
  from assms(2) have mem: "uid \<in> set (map user_id (users d))" by simp
  have "\<forall>u\<in>set ?us. total_tokens u =
      logged_sum (user_id u) (transactions d @
        [\<lparr>transaction_id = Suc (length (transactions d)), txn_user_id = uid, amount = a,
          txn_type = ty, description = de, timestamp = now\<rparr>])"
    using bal by (auto simp: logged_sum_append)
  with own mem show ?thesis
    unfolding ledger_consistent_def add_tokens_def list_all_iff
    by (simp add: ids del: set_map map_map)
qed


lemma ledger_consistent_assign_task:
  "ledger_consistent (assign_task tid uid d) = ledger_consistent d"
  by (simp add: ledger_consistent_def assign_task_def)

lemma ledger_consistent_complete_task:
  "ledger_consistent (complete_task now tid res d) = ledger_consistent d"
  by (simp add: ledger_consistent_def complete_task_def)

lemma users_complete_task: "users (complete_task now tid res d) = users d"
  by (simp add: complete_task_def)

lemma transactions_complete_task: "transactions (complete_task now tid res d) = transactions d"
  by (simp add: complete_task_def)

lemma generate_from_ledger:
  "users (db (snd (generate_from clock draws hexes i n s))) = users (db s) \<and>
   transactions (db (snd (generate_from clock draws hexes i n s))) = transactions (db s)"
proof (induction n arbitrary: i s)
  case 0
  show ?case by simp
next
  case (Suc n)
  show ?case
    by (auto simp: Suc.IH create_task_def Let_def split: sum.splits)
qed

lemma replenish_ledger:
  "users (db (snd (replenish clock draws hexes s))) = users (db s) \<and>
   transactions (db (snd (replenish clock draws hexes s))) = transactions (db s)"
  by (simp add: replenish_def generate_tasks_def generate_from_ledger split: option.splits)

text \<open>Every handler, and the task generator, keeps the ledger consistent.\<close>

lemma register_worker_consistent:
  "ledger_consistent (db s) \<Longrightarrow> ledger_consistent (db (snd (register_worker now u s)))"
proof (cases u)
  case None
  then show "ledger_consistent (db s) \<Longrightarrow> ?thesis" by (simp add: register_worker_def)
next
  case (Some uid)
  assume c: "ledger_consistent (db s)"
  have "db (snd (register_worker now (Some uid) s)) = db s \<or>
        db (snd (register_worker now (Some uid) s)) = snd (create_user now uid (db s))"
    by (simp add: register_worker_def split: prod.splits bool.splits option.splits)
  with c ledger_consistent_create_user [OF c, of now uid] Some show ?thesis by auto
qed

lemma get_task_consistent:
  "ledger_consistent (db s) \<Longrightarrow> ledger_consistent (db (snd (get_task u s)))"
  by (simp add: get_task_def get_task_assign_def ledger_consistent_assign_task
      split: sum.splits prod.splits)

lemma submit_result_consistent:
  "ledger_consistent (db s) \<Longrightarrow>
   ledger_consistent (db (snd (submit_result now1 now2 u t p s)))"
  by (auto simp: submit_result_def Let_def ledger_consistent_complete_task users_complete_task
      get_user_complete_task
      intro!: ledger_consistent_add_tokens dest: get_user_mem
      split: option.splits prod.splits)

lemma query_model_consistent:
  "ledger_consistent (db s) \<Longrightarrow> ledger_consistent (db (snd (query_model now u p s)))"
  by (auto simp: query_model_def Let_def intro!: ledger_consistent_add_tokens dest: get_user_mem
      split: option.splits)

lemma get_balance_consistent:
  "ledger_consistent (db s) \<Longrightarrow> ledger_consistent (db (snd (get_balance u s)))"
  by (simp add: get_balance_def split: option.splits)

lemma occur_consistent:
  "ledger_consistent (db s) \<Longrightarrow> ledger_consistent (db (occur e s))"
proof (cases e)
  case (Request r)
  assume "ledger_consistent (db s)"
  then show ?thesis
    unfolding Request
    by (cases r)
       (simp_all add: register_worker_consistent get_task_consistent submit_result_consistent
          query_model_consistent get_balance_consistent)
next
  case (Generator clock draws hexes)
  assume "ledger_consistent (db s)"
  then show ?thesis
    unfolding Generator
    by (simp add: ledger_consistent_cong [of "db (snd (replenish clock draws hexes s))" "db s"]
        replenish_ledger)
qed

lemma serve_consistent:
  "ledger_consistent (db s) \<Longrightarrow> ledger_consistent (db (serve evs s))"
  by (induction evs arbitrary: s) (simp_all add: occur_consistent)


text \<open>No sequence of events makes an account with an empty user_id.\<close>

lemma serve_user_ids:
  "[] \<notin> set (map user_id (users (db s))) \<Longrightarrow>
   [] \<notin> set (map user_id (users (db (serve evs s))))"
proof (induction evs arbitrary: s)
  case Nil
  then show ?case by simp
next
  case (Cons e evs)
  have "[] \<notin> set (map user_id (users (db (occur e s))))"
  proof (cases e)
    case (Request r)
    with handle_user_ids [OF Cons.prems, of r] show ?thesis by simp
  next
    case (Generator clock draws hexes)
    with Cons.prems show ?thesis by (simp add: replenish_ledger)
  qed
  then show ?case using Cons.IH by simp
qed

text \<open>What a single step does to one account and to the log.\<close>

lemma ledger_stepI:
  assumes "transactions d' = transactions d @ ys" and "length ys \<le> 1"
    and "\<And>u. get_user uid d = Some u \<Longrightarrow>
           \<exists>u'. get_user uid d' = Some u' \<and> total_tokens u' = total_tokens u + logged_sum uid ys"
  shows "ledger_step uid d d'"
proof -
  from assms(1) have a: "appended d d' = ys" by (simp add: appended_def)
  show ?thesis
    unfolding ledger_step_def a
    using assms by (auto simp: balance_of_def)
qed

lemma ledger_step_same:
  "users d' = users d \<Longrightarrow> transactions d' = transactions d \<Longrightarrow> ledger_step uid d d'"
  by (rule ledger_stepI [where ys = "[]"]) (simp_all add: get_user_def logged_sum_def)

lemma find_append_Some: "find P xs = Some x \<Longrightarrow> find P (xs @ ys) = Some x"
  by (induction xs) (auto split: if_splits)

lemma find_append_None: "find P xs = None \<Longrightarrow> find P (xs @ ys) = find P ys"
  by (induction xs) (auto split: if_splits)

lemma ledger_step_create_user: "ledger_step uid d (snd (create_user now w d))"
  by (rule ledger_stepI [where ys = "[]"])
     (auto simp: create_user_def get_user_def logged_sum_def find_append_Some)

lemma find_user_other:
  "uid \<noteq> w \<Longrightarrow>
   find (\<lambda>u. user_id u = uid)
     (map (\<lambda>u. if user_id u = w then u\<lparr>total_tokens := total_tokens u + a\<rparr> else u) us) =
   find (\<lambda>u. user_id u = uid) us"
  by (induction us) auto

lemma get_user_add_tokens_other:
  "uid \<noteq> w \<Longrightarrow> get_user uid (add_tokens now w a ty de d) = get_user uid d"
  by (simp add: get_user_def add_tokens_def find_user_other)

lemma ledger_step_add_tokens: "ledger_step uid d (add_tokens now w a ty de d)"
proof (rule ledger_stepI)
  show "transactions (add_tokens now w a ty de d) = transactions d @
     [\<lparr>transaction_id = Suc (length (transactions d)), txn_user_id = w, amount = a,
       txn_type = ty, description = de, timestamp = now\<rparr>]"
    by (simp add: add_tokens_def)
  show "length [\<lparr>transaction_id = Suc (length (transactions d)), txn_user_id = w, amount = a,
       txn_type = ty, description = de, timestamp = now\<rparr>] \<le> 1" by simp
  fix u assume "get_user uid d = Some u"
  then show "\<exists>u'. get_user uid (add_tokens now w a ty de d) = Some u' \<and>
     total_tokens u' = total_tokens u + logged_sum uid
       [\<lparr>transaction_id = Suc (length (transactions d)), txn_user_id = w, amount = a,
         txn_type = ty, description = de, timestamp = now\<rparr>]"
    by (cases "uid = w")
       (simp_all add: get_user_add_tokens get_user_add_tokens_other logged_sum_def)
qed

lemma ledger_step_after_complete:
  "ledger_step uid (complete_task now1 tid res d) d' \<Longrightarrow> ledger_step uid d d'"
  by (simp add: ledger_step_def appended_def balance_of_def get_user_complete_task
      transactions_complete_task)

lemma handle_ledger_step: "ledger_step uid (db s) (db (snd (handle r s)))"
proof (cases r)
  case (Register now u)
  have "db (snd (register_worker now u s)) = db s \<or>
        (\<exists>w. db (snd (register_worker now u s)) = snd (create_user now w (db s)))"
  proof (cases u)
    case None
    then show ?thesis by (simp add: register_worker_def)
  next
    case (Some w)
    have "db (snd (register_worker now (Some w) s)) = db s \<or>
          db (snd (register_worker now (Some w) s)) = snd (create_user now w (db s))"
      by (simp add: register_worker_def split: prod.splits bool.splits option.splits)
    with Some show ?thesis by auto
  qed
  then show ?thesis
    unfolding Register by (auto simp: ledger_step_create_user ledger_step_same)
next
  case (GetTask u)
  show ?thesis
    unfolding GetTask
    by (auto simp: get_task_def get_task_assign_def assign_task_def
        intro!: ledger_step_same split: sum.splits prod.splits)
next
  case (SubmitResult now1 now2 u t p)
  show ?thesis
    unfolding SubmitResult
    by (auto simp: submit_result_def Let_def users_complete_task transactions_complete_task
        intro!: ledger_step_same ledger_step_after_complete [OF ledger_step_add_tokens]
        split: option.splits prod.splits)
next
  case (GetBalance u)
  show ?thesis
    unfolding GetBalance
    by (auto simp: get_balance_def intro!: ledger_step_same split: option.splits)
next
  case (QueryModel now u p)
  show ?thesis
    unfolding QueryModel
    by (auto simp: query_model_def Let_def intro!: ledger_step_same ledger_step_add_tokens
        split: option.splits)
qed

lemma occur_ledger_step: "ledger_step uid (db s) (db (occur e s))"
  by (cases e) (simp_all add: handle_ledger_step ledger_step_same replenish_ledger)

lemma occur_log_prefix: "prefix (transactions (db s)) (transactions (db (occur e s)))"
  using occur_ledger_step [of undefined s e]
  by (metis ledger_step_def prefixI)

lemma serve_log_prefix: "prefix (transactions (db s)) (transactions (db (serve evs s)))"
proof (induction evs arbitrary: s)
  case Nil
  show ?case by simp
next
  case (Cons e evs)
  have "prefix (transactions (db s)) (transactions (db (occur e s)))"
    by (rule occur_log_prefix)
  also have "prefix (transactions (db (occur e s))) (transactions (db (serve evs (occur e s))))"
    by (rule Cons.IH)
  finally show ?case by simp
qed


text \<open>
  C6. The stored balance of every account equals the sum of the amounts of the
  account's transaction records:
  \<^item> this holds for the empty database;
  \<^item> every sequence of requests (register, get_task, submit_result, get_balance,
    query_model) and generator rounds preserves it;
  \<^item> over such a sequence the log only grows: the old log is a prefix of the new one;
  \<^item> every single step appends at most one record, and changes the balance of an
    existing account by exactly the amounts appended under its user_id (so a balance
    that changes does so together with one appended record of the same amount);
  \<^item> a new account starts with the balance 0.
\<close>

theorem ledger_matches_transaction_log:
  "ledger_consistent empty_database \<and>
   (ledger_consistent (db s) \<longrightarrow> ledger_consistent (db (serve evs s))) \<and>
   prefix (transactions (db s)) (transactions (db (serve evs s))) \<and>
   ledger_step uid (db s) (db (occur e s)) \<and>
   (w \<notin> user_id ` set (users (db s)) \<longrightarrow>
      get_user w (snd (create_user now w (db s))) =
        Some \<lparr>user_id = w, created_at = now, total_tokens = 0, total_work_done = 0\<rparr>)"
proof -
  have "w \<notin> user_id ` set (users (db s)) \<Longrightarrow>
      get_user w (snd (create_user now w (db s))) =
        Some \<lparr>user_id = w, created_at = now, total_tokens = 0, total_work_done = 0\<rparr>"
  proof -
    assume n: "w \<notin> user_id ` set (users (db s))"
    then have "find (\<lambda>u. user_id u = w) (users (db s)) = None"
      by (auto simp: find_None_iff)
    with n show ?thesis
      by (simp add: create_user_def get_user_def find_append_None)
  qed
  then show ?thesis
    by (simp add: ledger_consistent_empty serve_consistent serve_log_prefix occur_ledger_step)
qed

theorem ledger_matches_transaction_log_witness:
  "ledger_consistent (db (demo_server [demo_user ''alice'' 0] [demo_task Assigned (Some ''alice'')] [])) \<and>
   ledger_consistent (db (serve
       [Request (SubmitResult 4 5 (Some ''alice'') (Some ''task-1'') (Some [(''w'', Arr [Num 3, Num 4])])),
        Request (QueryModel 6 (Some ''alice'') (Some ''hello''))]
       (demo_server [demo_user ''alice'' 0] [demo_task Assigned (Some ''alice'')] []))) \<and>
   map total_tokens (users (db (serve
       [Request (SubmitResult 4 5 (Some ''alice'') (Some ''task-1'') (Some [(''w'', Arr [Num 3, Num 4])])),
        Request (QueryModel 6 (Some ''alice'') (Some ''hello''))]
       (demo_server [demo_user ''alice'' 0] [demo_task Assigned (Some ''alice'')] [])))) = [1 / 2] \<and>
   map amount (transactions (db (serve
       [Request (SubmitResult 4 5 (Some ''alice'') (Some ''task-1'') (Some [(''w'', Arr [Num 3, Num 4])])),
        Request (QueryModel 6 (Some ''alice'') (Some ''hello''))]
       (demo_server [demo_user ''alice'' 0] [demo_task Assigned (Some ''alice'')] [])))) = [1, - (1 / 2)] \<and>
   ledger_step ''alice''
     (db (demo_server [demo_user ''alice'' 0] [demo_task Assigned (Some ''alice'')] []))
     (db (occur (Request (SubmitResult 4 5 (Some ''alice'') (Some ''task-1'')
                   (Some [(''w'', Arr [Num 3, Num 4])])))
            (demo_server [demo_user ''alice'' 0] [demo_task Assigned (Some ''alice'')] []))) \<and>
   ''bob'' \<notin> user_id ` set (users (db (demo_server [demo_user ''alice'' 0] [demo_task Assigned (Some ''alice'')] []))) \<and>
   get_user ''bob'' (snd (create_user 7 ''bob''
       (db (demo_server [demo_user ''alice'' 0] [demo_task Assigned (Some ''alice'')] [])))) =
     Some \<lparr>user_id = ''bob'', created_at = 7, total_tokens = 0, total_work_done = 0\<rparr>"
proof -
  let ?s = "demo_server [demo_user ''alice'' 0] [demo_task Assigned (Some ''alice'')] []"
  let ?e = "Request (SubmitResult 4 5 (Some ''alice'') (Some ''task-1'') (Some [(''w'', Arr [Num 3, Num 4])]))"
  let ?evs = "[?e, Request (QueryModel 6 (Some ''alice'') (Some ''hello''))]"
  have c0: "ledger_consistent (db ?s)"
    by (simp add: ledger_consistent_def demo_server_def demo_user_def logged_sum_def)
  have nb: "''bob'' \<notin> user_id ` set (users (db ?s))"
    by (simp add: demo_server_def demo_user_def)
  have g: "get_user ''alice'' (db ?s) = Some (demo_user ''alice'' 0)"
    by (simp add: get_user_def demo_server_def demo_user_def)
  have b: "aggregate_parameters [(''w'', Arr [Num 3, Num 4])] (1 / 10) (model ?s) =
      (None, [(''w'', Arr [Num (6 / 5), Num (11 / 5)]), (''b'', Arr [Num 0])])"
    by (simp add: demo_server_def demo_blend)
  have s1: "users (db (occur ?e ?s)) = [demo_user ''alice'' 1] \<and>
            map amount (transactions (db (occur ?e ?s))) = [1]"
    by (simp add: submit_result_accepted [OF _ _ _ g b])
       (simp add: demo_server_def demo_user_def add_tokens_def complete_task_def)
  have s2: "map total_tokens (users (db (serve ?evs ?s))) = [1 / 2] \<and>
            map amount (transactions (db (serve ?evs ?s))) = [1, - (1 / 2)]"
    using s1
    by (simp add: query_model_def truthy_def Let_def get_user_def tokens_cost_def
        add_tokens_def demo_user_def)
  from ledger_matches_transaction_log [of ?s ?evs "''alice''" ?e "''bob''" 7] c0 nb s2
  show ?thesis by simp
qed

subsection \<open>Blending an update into the global model\<close>





lemma shape_of_map:
  assumes "\<And>v. v \<in> set vs \<Longrightarrow> shape_of (f v) = shape_of v"
  shows "shape_of (Arr (map f vs)) = shape_of (Arr vs)"
proof (cases vs)
  case Nil
  then show ?thesis by simp
next
  case (Cons v vs')
  with assms have "shape_of (f v) = shape_of v"
    and "\<And>ns. list_all (\<lambda>u. shape_of u = Some ns) (map f vs')
          = list_all (\<lambda>u. shape_of u = Some ns) vs'"
    by (simp_all add: list_all_iff)
  with Cons show ?thesis by (simp split: option.splits)
qed

lemma shape_of_scalar_mul: "shape_of (scalar_mul c t) = shape_of t"
proof (induction t)
  case (Num x)
  show ?case by simp
next
  case (Arr vs)
  then show ?case by (simp add: shape_of_map)
qed










lemma weighted_average_raises:
  "\<not> broadcastable g u \<Longrightarrow> \<exists>e. weighted_average w g u = Inl e"
  by (auto simp: broadcastable_def weighted_average_def torch_tensor_def tensor_add_def
      shape_of_scalar_mul split: option.splits)





lemma blend_loop_raises:
  "distinct (map fst U) \<Longrightarrow> (k, u) \<in> set U \<Longrightarrow> map_of cur k = Some g \<Longrightarrow>
   \<not> broadcastable g u \<Longrightarrow> \<exists>e. blend_loop w U cur = Inl e"
proof (induction U arbitrary: cur)
  case Nil
  then show ?case by simp
next
  case (Cons p U)
  obtain k' u' where p: "p = (k', u')" by (cases p)
  show ?case
  proof (cases "(k', u') = (k, u)")
    case True
    with Cons.prems p weighted_average_raises [of g u w] show ?thesis by auto
  next
    case False
    with Cons.prems p have mem: "(k, u) \<in> set U" and d: "distinct (map fst U)" by auto
    from Cons.prems(1) p mem have kk: "k' \<noteq> k" by force
    show ?thesis
    proof (cases "map_of cur k'")
      case None
      with Cons.IH [OF d mem Cons.prems(3,4)] p show ?thesis by simp
    next
      case (Some g')
      show ?thesis
      proof (cases "weighted_average w g' u'")
        case (Inl e)
        with Some p show ?thesis by simp
      next
        case (Inr nv)
        from kk Cons.prems(3) have "map_of (AList.update k' nv cur) k = Some g"
          by (simp add: update_conv')
        from Cons.IH [OF d mem this Cons.prems(4)] Some Inr p show ?thesis by simp
      qed
    qed
  qed
qed
















text \<open>
  C5, amended. When the update holds, for some parameter name present in the model, a value
  that torch cannot add to the stored array (a ragged value, or a shape that does not
  broadcast with the stored shape), the blend call raises and the global model is exactly
  what it was: no parameter is updated.
\<close>

theorem incompatible_update_aborts_blend:
  assumes "distinct (map fst U)" and "(k, u) \<in> set U" and "map_of m k = Some g"
    and "\<not> broadcastable g u"
  shows "\<exists>e. aggregate_parameters U w m = (Some e, m)"
proof -
  from assms obtain e where "blend_loop w U m = Inl e"
    using blend_loop_raises by blast
  then have "aggregate_parameters U w m = (Some e, m)"
    by (simp add: aggregate_parameters_def get_trainable_parameters_def)
  then show ?thesis ..
qed

theorem incompatible_update_aborts_blend_witness:
  "distinct (map fst [(''b'', Arr [Num 5]), (''w'', Arr [Num 3, Num 4, Num 5])]) \<and>
   map_of demo_model ''w'' = Some (Arr [Num 1, Num 2]) \<and>
   \<not> broadcastable (Arr [Num 1, Num 2]) (Arr [Num 3, Num 4, Num 5]) \<and>
   (\<exists>e. aggregate_parameters [(''b'', Arr [Num 5]), (''w'', Arr [Num 3, Num 4, Num 5])] (1 / 10) demo_model
          = (Some e, demo_model))"
proof -
  let ?U = "[(''b'', Arr [Num 5]), (''w'', Arr [Num 3, Num 4, Num 5])]"
  have d: "distinct (map fst ?U)" by simp
  have mem: "(''w'', Arr [Num 3, Num 4, Num 5]) \<in> set ?U" by simp
  have g: "map_of demo_model ''w'' = Some (Arr [Num 1, Num 2])" by (simp add: demo_model_def)
  have nb: "\<not> broadcastable (Arr [Num 1, Num 2]) (Arr [Num 3, Num 4, Num 5])"
    by (simp add: broadcastable_def broadcast_shapes_def)
  from incompatible_update_aborts_blend [OF d mem g nb, of "1 / 10"] d g nb
  show ?thesis by blast
qed

text \<open>
  C5, as the claim states it, fails: the update gives the parameter w, stored with shape
  [2], a value of shape [1]. No failure is signalled: the value is broadcast, and the
  model is changed.
\<close>

theorem broadcast_update_counterexample:
  "map_of demo_model ''w'' = Some (Arr [Num 1, Num 2]) \<and>
   shape_of (Arr [Num 3]) \<noteq> shape_of (Arr [Num 1, Num 2]) \<and>
   aggregate_parameters [(''w'', Arr [Num 3])] (1 / 10) demo_model =
     (None, [(''w'', Arr [Num (6 / 5), Num (21 / 10)]), (''b'', Arr [Num 0])])"
  by (simp add: aggregate_parameters_def get_trainable_parameters_def demo_model_def
      weighted_average_def torch_tensor_def tensor_add_def broadcast_shapes_def
      set_parameters_def load_state_dict_def load_param_def size_mismatch_def)

text \<open>
  The exception in the witness above is torch's RuntimeError, raised by the addition;
  the item for b, which came first, had been blended in the local dict only.
\<close>

lemma incompatible_update_example:
  "aggregate_parameters [(''b'', Arr [Num 5]), (''w'', Arr [Num 3, Num 4, Num 5])] (1 / 10) demo_model
     = (Some RuntimeError, demo_model)"
  by (simp add: aggregate_parameters_def get_trainable_parameters_def demo_model_def
      weighted_average_def torch_tensor_def tensor_add_def broadcast_shapes_def)

text \<open>
  A value that broadcasts to a shape other than the stored one passes the loop and is
  turned away by \<^verbatim>\<open>load_state_dict\<close>, which has by then loaded the other parameters.
\<close>

lemma load_after_broadcast_example:
  "aggregate_parameters [(''w'', Arr [Num 3, Num 4]), (''b'', Arr [Num 5, Num 6])] (1 / 10) demo_model
     = (Some RuntimeError, [(''w'', Arr [Num (6 / 5), Num (11 / 5)]), (''b'', Arr [Num 0])])"
  by (simp add: aggregate_parameters_def get_trainable_parameters_def demo_model_def
      weighted_average_def torch_tensor_def tensor_add_def broadcast_shapes_def
      set_parameters_def load_state_dict_def load_param_def size_mismatch_def)

end
